theory Spec2Isabelle
  imports
    Complex_Main
    "HOL-Library.AList"
    "HOL-Library.Char_ord"
    "HOL-Library.List_Lexorder"
    "HOL-Library.Product_Lexorder"
begin

section \<open>The canonical table read by the dashboard\<close>

text \<open>
  \<^verbatim>\<open>app.py\<close> loads one table (\<^verbatim>\<open>carregar_dados\<close>), lets the user pick filters in
  the sidebar and then filters, groups and ranks that table. This section models one row
  of the table as the script reads it after loading. \<^verbatim>\<open>Ano\<close> is the result of
  \<^verbatim>\<open>pd.to_numeric(..., errors='coerce')\<close>: a whole year, or \<open>None\<close> for NaN. The columns
  that the loader does not fill (\<^verbatim>\<open>Estado\<close>, \<^verbatim>\<open>Municipio\<close> and the three analysis
  dimensions) may hold a null, written \<open>None\<close>. The four enrolment columns are int64
  after \<^verbatim>\<open>astype(int)\<close>; they are modelled as unbounded integers (sums of enrolment
  counts stay far below \<open>2^63\<close>).
\<close>

record registro =
  Ano :: "int option"
  Estado :: "string option"
  Municipio :: "string option"
  COREDE :: string
  IES :: string
  Status_Juridico :: string
  Programa :: "string option"
  Area_de_Avaliacao :: "string option"
  Area_de_Conhecimento :: "string option"
  Doutorado :: int
  Doutorado_Profissional :: int
  Mestrado :: int
  Mestrado_Profissional :: int

text \<open>The two select boxes of the sidebar (lines 107-108).\<close>

datatype dimensao = Dim_Programa | Dim_Area_de_Avaliacao | Dim_Area_de_Conhecimento

datatype metrica =
    Met_Doutorado
  | Met_Doutorado_Profissional
  | Met_Mestrado
  | Met_Mestrado_Profissional
  | Met_Total_Matriculados

fun coluna_dimensao :: "dimensao \<Rightarrow> registro \<Rightarrow> string option" where
  "coluna_dimensao Dim_Programa r = Programa r"
| "coluna_dimensao Dim_Area_de_Avaliacao r = Area_de_Avaliacao r"
| "coluna_dimensao Dim_Area_de_Conhecimento r = Area_de_Conhecimento r"

text \<open>
  Line 141 adds the column \<^verbatim>\<open>Total Matriculados\<close> as the row-wise sum of the four
  enrolment columns when that metric is chosen; the other metrics read their column.
\<close>

fun coluna_metrica :: "metrica \<Rightarrow> registro \<Rightarrow> int" where
  "coluna_metrica Met_Doutorado r = Doutorado r"
| "coluna_metrica Met_Doutorado_Profissional r = Doutorado_Profissional r"
| "coluna_metrica Met_Mestrado r = Mestrado r"
| "coluna_metrica Met_Mestrado_Profissional r = Mestrado_Profissional r"
| "coluna_metrica Met_Total_Matriculados r =
     Doutorado r + Doutorado_Profissional r + Mestrado r + Mestrado_Profissional r"

section \<open>Filters (lines 113-137)\<close>

text \<open>
  The multiselect widgets return lists of chosen values, the slider a pair of years.
\<close>

record filtros =
  ano_range :: "int \<times> int"
  estados :: "string option list"
  municipios :: "string option list"
  coredes :: "string list"
  ies_list :: "string list"
  status_juridico :: "string list"

text \<open>
  \<^verbatim>\<open>(df['Ano'] >= lo) & (df['Ano'] <= hi)\<close>: a comparison with NaN is false.
\<close>

definition ano_no_intervalo :: "int \<times> int \<Rightarrow> registro \<Rightarrow> bool" where
  "ano_no_intervalo rng r =
     (case Ano r of None \<Rightarrow> False | Some a \<Rightarrow> fst rng \<le> a \<and> a \<le> snd rng)"

text \<open>
  \<^verbatim>\<open>if sel: df = df[df[col].isin(sel)]\<close>: an empty selection leaves the table as it is.
\<close>

definition aplicar_isin :: "'a list \<Rightarrow> ('r \<Rightarrow> 'a) \<Rightarrow> 'r list \<Rightarrow> 'r list" where
  "aplicar_isin sel col df = (if sel \<noteq> [] then filter (\<lambda>r. col r \<in> set sel) df else df)"

definition filtered_df :: "filtros \<Rightarrow> registro list \<Rightarrow> registro list" where
  "filtered_df f df =
     aplicar_isin (status_juridico f) Status_Juridico
       (aplicar_isin (ies_list f) IES
         (aplicar_isin (coredes f) COREDE
           (aplicar_isin (municipios f) Municipio
             (aplicar_isin (estados f) Estado
               (filter (ano_no_intervalo (ano_range f)) df)))))"

section \<open>Grouping (lines 143 and 184)\<close>

text \<open>
  \<^verbatim>\<open>df.groupby(keys)[col].sum().reset_index()\<close>: one row per key that occurs, in
  ascending order of the key, holding the sum of the column over the rows with that key.
  Rows with a null in a key column are left out (pandas' default \<^verbatim>\<open>dropna=True\<close>);
  \<open>chave\<close> returns \<open>None\<close> for them.
\<close>

definition groupby_sum :: "('r \<Rightarrow> 'k::linorder option) \<Rightarrow> ('r \<Rightarrow> int) \<Rightarrow> 'r list \<Rightarrow> ('k \<times> int) list" where
  "groupby_sum chave col df =
     map (\<lambda>k. (k, sum_list (map col (filter (\<lambda>r. chave r = Some k) df))))
       (sort (remdups (List.map_filter chave df)))"

definition chave_ano_dimensao :: "dimensao \<Rightarrow> registro \<Rightarrow> (int \<times> string) option" where
  "chave_ano_dimensao d r =
     (case Ano r of
        None \<Rightarrow> None
      | Some a \<Rightarrow> (case coluna_dimensao d r of None \<Rightarrow> None | Some v \<Rightarrow> Some (a, v)))"

text \<open>Line 143: the time series, keyed by year and dimension value.\<close>

definition grouped_df :: "dimensao \<Rightarrow> metrica \<Rightarrow> registro list \<Rightarrow> ((int \<times> string) \<times> int) list" where
  "grouped_df d m fdf = groupby_sum (chave_ano_dimensao d) (coluna_metrica m) fdf"

section \<open>Growth rate (lines 33-43 and 176-178)\<close>

text \<open>
  The values of a float64 computation: a finite number (the arithmetic on finite numbers
  is taken over the reals, without rounding), the two infinities and NaN.
\<close>

datatype float64 = Fin real | PosInf | NegInf | NaN

datatype erro = IndexError

text \<open>\<^verbatim>\<open>s.iloc[0]\<close> and \<^verbatim>\<open>s.iloc[-1]\<close> raise IndexError on an empty series.\<close>

definition iloc_primeiro :: "'a list \<Rightarrow> erro + 'a" where
  "iloc_primeiro xs = (case xs of [] \<Rightarrow> Inl IndexError | x # _ \<Rightarrow> Inr x)"

definition iloc_ultimo :: "'a list \<Rightarrow> erro + 'a" where
  "iloc_ultimo xs = (if xs = [] then Inl IndexError else Inr (last xs))"

text \<open>
  \<^verbatim>\<open>(b / a) ** (1 / n) - 1\<close> for int64 \<open>a \<noteq> 0\<close>, \<open>b\<close> and a year difference \<open>n \<noteq> 0\<close>,
  as numpy evaluates it: the quotient \<open>q\<close> is a float, \<open>1 / n\<close> is a whole number only for
  \<open>n = 1\<close> and \<open>n = -1\<close>, a negative base with a fractional exponent gives NaN, and zero to
  a negative power gives infinity.
\<close>

definition potencia_menos_um :: "real \<Rightarrow> int \<Rightarrow> float64" where
  "potencia_menos_um q n =
     (if 0 < q then Fin (q powr (1 / real_of_int n) - 1)
      else if q = 0 then (if 0 < n then Fin (- 1) else PosInf)
      else if n = 1 then Fin (q - 1)
      else if n = - 1 then Fin (1 / q - 1)
      else NaN)"

text \<open>
  \<^verbatim>\<open>calcular_cagr(valores, anos)\<close>. The values are int64, so \<^verbatim>\<open>pd.isna(primeiro_valor)\<close>
  is never true for them and the test \<^verbatim>\<open>primeiro_valor == 0 or pd.isna(...)\<close> is the
  test for zero. The integer \<open>0\<close> of the early returns is \<open>Fin 0\<close>.
\<close>

definition calcular_cagr :: "int list \<Rightarrow> int list \<Rightarrow> erro + float64" where
  "calcular_cagr valores anos =
     (if length valores < 2 then Inr (Fin 0)
      else
        (case iloc_primeiro valores of
           Inl e \<Rightarrow> Inl e
         | Inr primeiro_valor \<Rightarrow>
            (case iloc_ultimo valores of
               Inl e \<Rightarrow> Inl e
             | Inr ultimo_valor \<Rightarrow>
                (if primeiro_valor = 0 then Inr (Fin 0)
                 else
                   (case iloc_ultimo anos of
                      Inl e \<Rightarrow> Inl e
                    | Inr ano_fim \<Rightarrow>
                       (case iloc_primeiro anos of
                          Inl e \<Rightarrow> Inl e
                        | Inr ano_ini \<Rightarrow>
                           (let num_anos = ano_fim - ano_ini
                            in if num_anos = 0 then Inr (Fin 0)
                               else Inr (potencia_menos_um
                                      (real_of_int ultimo_valor / real_of_int primeiro_valor)
                                      num_anos))))))))"

text \<open>
  Lines 176-178: the growth rate is computed and written only when the grouped table has
  a row; \<open>None\<close> is "nothing written".
\<close>

definition cagr_exibido :: "((int \<times> string) \<times> int) list \<Rightarrow> (erro + float64) option" where
  "cagr_exibido g =
     (if g \<noteq> [] then Some (calcular_cagr (map snd g) (map (\<lambda>l. fst (fst l)) g)) else None)"

section \<open>Ranking of institutions with market share (lines 181-234)\<close>

text \<open>
  \<^verbatim>\<open>serie / total_geral\<close> on int64 values is float division: a zero divisor gives NaN
  for \<open>0 / 0\<close> and a signed infinity otherwise, without raising.
\<close>

definition dividir :: "int \<Rightarrow> int \<Rightarrow> float64" where
  "dividir a b =
     (if b \<noteq> 0 then Fin (real_of_int a / real_of_int b)
      else if a = 0 then NaN
      else if 0 < a then PosInf else NegInf)"

fun vezes :: "float64 \<Rightarrow> real \<Rightarrow> float64" where
  "vezes (Fin x) c = Fin (x * c)"
| "vezes PosInf c = PosInf"
| "vezes NegInf c = NegInf"
| "vezes NaN c = NaN"

text \<open>
  \<^verbatim>\<open>.round(2)\<close> is numpy's rounding: scale by 100, round to the nearest whole number
  with ties to the even one, scale back. Infinities and NaN stay as they are.
\<close>

definition rint :: "real \<Rightarrow> int" where
  "rint x =
     (let f = \<lfloor>x\<rfloor>; d = x - real_of_int f
      in if d < 1 / 2 then f else if 1 / 2 < d then f + 1 else if even f then f else f + 1)"

fun round2 :: "float64 \<Rightarrow> float64" where
  "round2 (Fin x) = Fin (real_of_int (rint (x * 100)) / 100)"
| "round2 PosInf = PosInf"
| "round2 NegInf = NegInf"
| "round2 NaN = NaN"

record linha_ies =
  nome_ies :: string
  valor :: int
  market_share :: float64

text \<open>Line 184: \<^verbatim>\<open>filtered_df.groupby('IES')[metrica].sum().reset_index()\<close>.\<close>

definition ies_agrupado :: "metrica \<Rightarrow> registro list \<Rightarrow> (string \<times> int) list" where
  "ies_agrupado m fdf = groupby_sum (\<lambda>r. Some (IES r)) (coluna_metrica m) fdf"

text \<open>Line 187.\<close>

definition total_geral :: "(string \<times> int) list \<Rightarrow> int" where
  "total_geral g = sum_list (map snd g)"

text \<open>Line 190: \<^verbatim>\<open>(ies_stats[metrica] / total_geral * 100).round(2)\<close>.\<close>

definition calcular_share :: "int \<Rightarrow> int \<Rightarrow> float64" where
  "calcular_share v tot = round2 (vezes (dividir v tot) 100)"

definition com_market_share :: "(string \<times> int) list \<Rightarrow> linha_ies list" where
  "com_market_share g =
     map (\<lambda>(n, v). \<lparr>nome_ies = n, valor = v, market_share = calcular_share v (total_geral g)\<rparr>) g"

text \<open>
  Line 193: \<^verbatim>\<open>sort_values(metrica, ascending=False)\<close>. pandas reverses the column, sorts
  it ascending and reverses the result. numpy's default sort may order rows with equal
  values in any way; the model takes the stable order, and nothing below depends on how
  ties are ordered.
\<close>

definition sort_values_desc :: "linha_ies list \<Rightarrow> linha_ies list" where
  "sort_values_desc t = rev (sort_key valor (rev t))"

definition ies_stats :: "metrica \<Rightarrow> registro list \<Rightarrow> linha_ies list" where
  "ies_stats m fdf = sort_values_desc (com_market_share (ies_agrupado m fdf))"

text \<open>
  The block runs only for a non-empty filtered table (line 182). It yields the chart's
  table \<^verbatim>\<open>top_ies = ies_stats.head(15)\<close> and the full table with the column
  \<^verbatim>\<open>Ranking = range(1, len(ies_stats) + 1)\<close>.
\<close>

record bloco_ranking =
  top_ies :: "linha_ies list"
  tabela_completa :: "(nat \<times> linha_ies) list"

definition ranking_ies :: "metrica \<Rightarrow> registro list \<Rightarrow> bloco_ranking option" where
  "ranking_ies m fdf =
     (if fdf \<noteq> [] then
        Some \<lparr>top_ies = take 15 (ies_stats m fdf),
              tabela_completa = zip [1 ..< length (ies_stats m fdf) + 1] (ies_stats m fdf)\<rparr>
      else None)"

section \<open>One run of the script for a choice of filters\<close>

record painel =
  serie_temporal :: "((int \<times> string) \<times> int) list"
  cagr :: "(erro + float64) option"
  ranking :: "bloco_ranking option"

definition executar :: "filtros \<Rightarrow> dimensao \<Rightarrow> metrica \<Rightarrow> registro list \<Rightarrow> painel" where
  "executar f d m df =
     (let fdf = filtered_df f df; g = grouped_df d m fdf
      in \<lparr>serie_temporal = g, cagr = cagr_exibido g, ranking = ranking_ies m fdf\<rparr>)"

section \<open>Loading and normalising the table (lines 47-100)\<close>

text \<open>
  The raw table is what \<^verbatim>\<open>pd.read_parquet\<close> returns: named columns in file order, each
  with one cell per row of the index. A cell is a null (\<^verbatim>\<open>None\<close> in a column of
  objects, \<^verbatim>\<open>NaN\<close> in a numeric one), a whole number or a string. Column names and
  string cells are byte strings in UTF-8, so the accented letters of the source's literals
  are written out as their two bytes; equality and containment of such strings agree with
  Python's on the decoded text. Numbers are whole numbers whether pandas holds the column
  as int64 or, because of a NaN, as float64; numbers with a fractional part are outside
  the model, and no property below depends on how a number is printed as text.
\<close>

datatype celula = NoneV | NaNV | IntV int | StrV string

record dataframe =
  n_linhas :: nat
  colunas :: "(string \<times> celula list) list"

datatype erro_carga = Falta_Coluna string | Valor_Invalido | Tipo_Invalido

definition nome_Ano :: string where
  "nome_Ano = ''Ano''"

definition nome_COREDE :: string where
  "nome_COREDE = ''COREDE''"

definition nome_IES :: string where
  "nome_IES = ''IES''"

definition nome_Instituicao :: string where
  "nome_Instituicao = ''Institui'' @ [CHR 0xC3, CHR 0xA7, CHR 0xC3, CHR 0xA3] @ ''o''"

definition nome_Status :: string where
  "nome_Status = ''Status''"

definition nome_Juridico :: string where
  "nome_Juridico = ''Jur'' @ [CHR 0xC3, CHR 0xAD] @ ''dico''"

definition nome_Categoria :: string where
  "nome_Categoria = ''Categoria''"

definition nome_Status_Juridico :: string where
  "nome_Status_Juridico = ''Status '' @ nome_Juridico"

definition Nao_informado :: string where
  "Nao_informado = ''N'' @ [CHR 0xC3, CHR 0xA3] @ ''o informado''"

definition Area :: string where
  "Area = [CHR 0xC3, CHR 0x81] @ ''rea''"

definition Avaliacao :: string where
  "Avaliacao = ''Avalia'' @ [CHR 0xC3, CHR 0xA7, CHR 0xC3, CHR 0xA3] @ ''o''"

definition colunas_matriculados :: "string list" where
  "colunas_matriculados =
     [''Doutorado - Matriculado'', ''Doutorado Profissional - Matriculado'',
      ''Mestrado - Matriculado'', ''Mestrado Profissional - Matriculado'']"

text \<open>\<^verbatim>\<open>mapa_colunas\<close> of line 54, as \<^verbatim>\<open>df.rename(columns=...)\<close> applies it to a name.\<close>

definition mapa_colunas :: "string \<Rightarrow> string" where
  "mapa_colunas c =
     (if c = ''UF'' then ''Estado''
      else if c = Area @ '' '' @ Avaliacao then Area @ '' de '' @ Avaliacao
      else if c = Area @ '' Conhecimento'' then Area @ '' de Conhecimento''
      else c)"

subsection \<open>Operations on cells\<close>

definition isna :: "celula \<Rightarrow> bool" where
  "isna c = (c = NoneV \<or> c = NaNV)"

definition fillna :: "celula \<Rightarrow> celula \<Rightarrow> celula" where
  "fillna v c = (if isna c then v else c)"

text \<open>
  \<^verbatim>\<open>pd.to_numeric(..., errors='coerce')\<close>: numbers stay, nulls and unreadable strings
  become NaN. How pandas reads a string as a number is a parameter, \<open>ler_numero\<close>.
\<close>

fun to_numeric :: "(string \<Rightarrow> int option) \<Rightarrow> celula \<Rightarrow> celula" where
  "to_numeric ler_numero (IntV n) = IntV n"
| "to_numeric ler_numero (StrV s) = (case ler_numero s of Some n \<Rightarrow> IntV n | None \<Rightarrow> NaNV)"
| "to_numeric ler_numero NoneV = NaNV"
| "to_numeric ler_numero NaNV = NaNV"

text \<open>Decimal digits of a number, as \<^verbatim>\<open>str\<close> prints an int.\<close>

fun digitos :: "nat \<Rightarrow> string" where
  "digitos n =
     (if n < 10 then [''0123456789'' ! n]
      else digitos (n div 10) @ [''0123456789'' ! (n mod 10)])"

declare digitos.simps [simp del]

definition str_int :: "int \<Rightarrow> string" where
  "str_int i = (if i < 0 then ''-'' @ digitos (nat (- i)) else digitos (nat i))"

text \<open>\<^verbatim>\<open>.astype(str)\<close>: a null becomes the text of its name.\<close>

fun astype_str :: "celula \<Rightarrow> celula" where
  "astype_str (StrV s) = StrV s"
| "astype_str (IntV n) = StrV (str_int n)"
| "astype_str NoneV = StrV ''None''"
| "astype_str NaNV = StrV ''nan''"

text \<open>
  \<^verbatim>\<open>.astype(int)\<close> on one cell: \<^verbatim>\<open>int(s)\<close> for a string (the parameter \<open>ler_inteiro\<close>,
  \<open>None\<close> where Python raises ValueError), an error for a null.
\<close>

fun astype_int :: "(string \<Rightarrow> int option) \<Rightarrow> celula \<Rightarrow> erro_carga + celula" where
  "astype_int ler_inteiro (IntV n) = Inr (IntV n)"
| "astype_int ler_inteiro (StrV s) =
     (case ler_inteiro s of Some n \<Rightarrow> Inr (IntV n) | None \<Rightarrow> Inl Valor_Invalido)"
| "astype_int ler_inteiro NoneV = Inl Tipo_Invalido"
| "astype_int ler_inteiro NaNV = Inl Valor_Invalido"

fun astype_int_serie :: "(string \<Rightarrow> int option) \<Rightarrow> celula list \<Rightarrow> erro_carga + celula list" where
  "astype_int_serie ler_inteiro [] = Inr []"
| "astype_int_serie ler_inteiro (c # cs) =
     (case astype_int ler_inteiro c of
        Inl e \<Rightarrow> Inl e
      | Inr v \<Rightarrow> (case astype_int_serie ler_inteiro cs of Inl e \<Rightarrow> Inl e | Inr vs \<Rightarrow> Inr (v # vs)))"

text \<open>\<^verbatim>\<open>'COREDE' in str(col)\<close>: the first string occurs inside the second.\<close>

fun comeca_com :: "string \<Rightarrow> string \<Rightarrow> bool" where
  "comeca_com [] s = True"
| "comeca_com (p # ps) [] = False"
| "comeca_com (p # ps) (c # cs) = (p = c \<and> comeca_com ps cs)"

fun contido_em :: "string \<Rightarrow> string \<Rightarrow> bool" where
  "contido_em p [] = (p = [])"
| "contido_em p (c # cs) = (comeca_com p (c # cs) \<or> contido_em p cs)"

subsection \<open>Operations on the table\<close>

text \<open>\<^verbatim>\<open>df[c]\<close> raises KeyError for a name that is not a column.\<close>

definition obter :: "dataframe \<Rightarrow> string \<Rightarrow> erro_carga + celula list" where
  "obter df c = (case map_of (colunas df) c of None \<Rightarrow> Inl (Falta_Coluna c) | Some s \<Rightarrow> Inr s)"

text \<open>
  \<^verbatim>\<open>df[c] = serie\<close> replaces the column where it stands, or adds it after the last one.
  \<^verbatim>\<open>df[c] = valor\<close> fills the column with one value per row.
\<close>

definition atribuir :: "string \<Rightarrow> celula list \<Rightarrow> dataframe \<Rightarrow> dataframe" where
  "atribuir c s df = df\<lparr>colunas := AList.update c s (colunas df)\<rparr>"

definition atribuir_valor :: "string \<Rightarrow> celula \<Rightarrow> dataframe \<Rightarrow> dataframe" where
  "atribuir_valor c v df = atribuir c (replicate (n_linhas df) v) df"

definition nomes :: "dataframe \<Rightarrow> string list" where
  "nomes df = map fst (colunas df)"

subsection \<open>The steps of \<^verbatim>\<open>carregar_dados\<close>\<close>

text \<open>Line 51: \<^verbatim>\<open>df['Ano'] = pd.to_numeric(df['Ano'], errors='coerce')\<close>.\<close>

definition passo_ano :: "(string \<Rightarrow> int option) \<Rightarrow> dataframe \<Rightarrow> erro_carga + dataframe" where
  "passo_ano ler_numero df =
     (case obter df nome_Ano of
        Inl e \<Rightarrow> Inl e
      | Inr s \<Rightarrow> Inr (atribuir nome_Ano (map (to_numeric ler_numero) s) df))"

text \<open>Line 59: \<^verbatim>\<open>df.rename(columns=mapa_colunas, inplace=True)\<close>.\<close>

definition passo_renomear :: "dataframe \<Rightarrow> dataframe" where
  "passo_renomear df = df\<lparr>colunas := map (\<lambda>(c, s). (mapa_colunas c, s)) (colunas df)\<rparr>"

text \<open>Lines 62-69.\<close>

definition passo_corede :: "dataframe \<Rightarrow> erro_carga + dataframe" where
  "passo_corede df =
     (if nome_COREDE \<notin> set (nomes df) then
        (case filter (contido_em nome_COREDE) (nomes df) of
           c # _ \<Rightarrow>
             (case obter df c of
                Inl e \<Rightarrow> Inl e
              | Inr s \<Rightarrow> Inr (atribuir nome_COREDE (map astype_str s) df))
         | [] \<Rightarrow> Inr (atribuir_valor nome_COREDE (StrV ''NA'') df))
      else
        (case obter df nome_COREDE of
           Inl e \<Rightarrow> Inl e
         | Inr s \<Rightarrow> Inr (atribuir nome_COREDE (map (\<lambda>c. astype_str (fillna (StrV ''NA'') c)) s) df)))"

text \<open>Lines 76-77: \<^verbatim>\<open>for coluna in ...: df[coluna] = df[coluna].fillna(0).astype(int)\<close>.\<close>

fun passo_matriculados ::
  "(string \<Rightarrow> int option) \<Rightarrow> string list \<Rightarrow> dataframe \<Rightarrow> erro_carga + dataframe" where
  "passo_matriculados ler_inteiro [] df = Inr df"
| "passo_matriculados ler_inteiro (coluna # resto) df =
     (case obter df coluna of
        Inl e \<Rightarrow> Inl e
      | Inr s \<Rightarrow>
          (case astype_int_serie ler_inteiro (map (fillna (IntV 0)) s) of
             Inl e \<Rightarrow> Inl e
           | Inr s' \<Rightarrow> passo_matriculados ler_inteiro resto (atribuir coluna s' df)))"

text \<open>
  Lines 80-86 and 88-94 have one shape: if the column is missing, copy the first column
  whose name holds one of the given words, or else fill it with the literal
  \<open>Nao_informado\<close>.
\<close>

definition garantir_coluna :: "string \<Rightarrow> string list \<Rightarrow> dataframe \<Rightarrow> erro_carga + dataframe" where
  "garantir_coluna nome palavras df =
     (if nome \<notin> set (nomes df) then
        (case filter (\<lambda>c. \<exists>p \<in> set palavras. contido_em p c) (nomes df) of
           c # _ \<Rightarrow>
             (case obter df c of Inl e \<Rightarrow> Inl e | Inr s \<Rightarrow> Inr (atribuir nome s df))
         | [] \<Rightarrow> Inr (atribuir_valor nome (StrV Nao_informado) df))
      else Inr df)"

text \<open>Lines 97-98: \<^verbatim>\<open>df[c] = df[c].fillna(...)\<close> with the literal \<open>Nao_informado\<close>.\<close>

definition preencher_nulos :: "string \<Rightarrow> dataframe \<Rightarrow> erro_carga + dataframe" where
  "preencher_nulos nome df =
     (case obter df nome of
        Inl e \<Rightarrow> Inl e
      | Inr s \<Rightarrow> Inr (atribuir nome (map (fillna (StrV Nao_informado)) s) df))"

definition entao :: "erro_carga + 'a \<Rightarrow> ('a \<Rightarrow> erro_carga + 'b) \<Rightarrow> erro_carga + 'b" where
  "entao r f = (case r of Inl e \<Rightarrow> Inl e | Inr x \<Rightarrow> f x)"

text \<open>
  The body of \<^verbatim>\<open>carregar_dados\<close> after \<^verbatim>\<open>read_parquet\<close>, in the order of the source.
  An exception of the source is an \<open>Inl\<close>.
\<close>

definition carregar_dados ::
  "(string \<Rightarrow> int option) \<Rightarrow> (string \<Rightarrow> int option) \<Rightarrow> dataframe \<Rightarrow> erro_carga + dataframe" where
  "carregar_dados ler_numero ler_inteiro df =
     entao (passo_ano ler_numero df) (\<lambda>df1.
     entao (passo_corede (passo_renomear df1)) (\<lambda>df2.
     entao (passo_matriculados ler_inteiro colunas_matriculados df2) (\<lambda>df3.
     entao (garantir_coluna nome_IES [nome_IES, nome_Instituicao] df3) (\<lambda>df4.
     entao (garantir_coluna nome_Status_Juridico [nome_Status, nome_Juridico, nome_Categoria] df4) (\<lambda>df5.
     entao (preencher_nulos nome_IES df5) (\<lambda>df6.
     preencher_nulos nome_Status_Juridico df6))))))"

subsection \<open>What a loaded table looks like\<close>

text \<open>
  \<open>coluna_com P df c\<close>: the table has a column \<open>c\<close> and every cell of it satisfies \<open>P\<close>.
  A table is well formed when its column names are distinct and every column has one cell
  per row. \<open>canonico\<close> collects what \<^verbatim>\<open>carregar_dados\<close> establishes.
\<close>

definition coluna_com :: "(celula \<Rightarrow> bool) \<Rightarrow> dataframe \<Rightarrow> string \<Rightarrow> bool" where
  "coluna_com P df c = (case obter df c of Inl e \<Rightarrow> False | Inr s \<Rightarrow> list_all P s)"


fun numerica :: "celula \<Rightarrow> bool" where
  "numerica (IntV n) = True"
| "numerica NaNV = True"
| "numerica NoneV = False"
| "numerica (StrV s) = False"

fun inteira :: "celula \<Rightarrow> bool" where
  "inteira (IntV n) = True"
| "inteira NaNV = False"
| "inteira NoneV = False"
| "inteira (StrV s) = False"

fun texto :: "celula \<Rightarrow> bool" where
  "texto (StrV s) = True"
| "texto (IntV n) = False"
| "texto NaNV = False"
| "texto NoneV = False"



definition canonico :: "dataframe \<Rightarrow> bool" where
  "canonico df =
     (list_all (\<lambda>c. mapa_colunas c = c) (nomes df)
      \<and> coluna_com numerica df nome_Ano
      \<and> coluna_com texto df nome_COREDE
      \<and> list_all (coluna_com inteira df) colunas_matriculados
      \<and> coluna_com (\<lambda>c. \<not> isna c) df nome_IES
      \<and> coluna_com (\<lambda>c. \<not> isna c) df nome_Status_Juridico)"



section \<open>Notions of the specification\<close>




text \<open>
  The sum of a column of percentages as pandas' \<^verbatim>\<open>sum()\<close> takes it over the numbers in
  the column, a NaN being skipped.
\<close>

fun valor_finito :: "float64 \<Rightarrow> real" where
  "valor_finito (Fin x) = x"
| "valor_finito PosInf = 0"
| "valor_finito NegInf = 0"
| "valor_finito NaN = 0"

definition soma_shares :: "linha_ies list \<Rightarrow> real" where
  "soma_shares t = sum_list (map (\<lambda>l. valor_finito (market_share l)) t)"



section \<open>A small table used to run the definitions\<close>

definition reg :: "int \<Rightarrow> string \<Rightarrow> string \<Rightarrow> string \<Rightarrow> int \<Rightarrow> registro" where
  "reg a uf inst prog v =
     \<lparr>Ano = Some a, Estado = Some uf, Municipio = None, COREDE = ''NA'', IES = inst,
      Status_Juridico = ''Federal'', Programa = Some prog, Area_de_Avaliacao = None,
      Area_de_Conhecimento = None, Doutorado = 0, Doutorado_Profissional = 0, Mestrado = v,
      Mestrado_Profissional = 0\<rparr>"

definition exemplo_df :: "registro list" where
  "exemplo_df =
     [reg 2019 ''RS'' ''A'' ''Fisica'' 100, reg 2019 ''SC'' ''B'' ''Quimica'' 50,
      reg 2020 ''RS'' ''A'' ''Fisica'' 121, reg 2020 ''SC'' ''B'' ''Quimica'' 60]"

definition sem_filtros :: filtros where
  "sem_filtros =
     \<lparr>ano_range = (2019, 2020), estados = [], municipios = [], coredes = [], ies_list = [],
      status_juridico = []\<rparr>"

text \<open>The specification's scenario: institutions A = 300, B = 100 (from two rows), C = 0.\<close>

definition cenario_ies :: "registro list" where
  "cenario_ies =
     [reg 2019 ''RS'' ''B'' ''Fisica'' 60, reg 2019 ''RS'' ''C'' ''Fisica'' 0,
      reg 2019 ''RS'' ''A'' ''Fisica'' 300, reg 2020 ''RS'' ''B'' ''Fisica'' 40]"



text \<open>
  A raw table of two rows: the year once as text, \<^verbatim>\<open>UF\<close> for the state, no column named
  \<^verbatim>\<open>COREDE\<close> but one whose name holds that word, a negative and a missing enrolment
  count, an institution column under another name and no legal status at all. The reader
  of numbers used with it knows the text \<^verbatim>\<open>2019\<close>.
\<close>

definition exemplo_bruto :: dataframe where
  "exemplo_bruto =
     \<lparr>n_linhas = 2,
      colunas =
        [(''Ano'', [StrV ''2019'', IntV 2020]),
         (''UF'', [StrV ''RS'', NoneV]),
         (''Nome COREDE'', [NoneV, StrV ''Sul'']),
         (''Doutorado - Matriculado'', [IntV (- 5), NaNV]),
         (''Doutorado Profissional - Matriculado'', [IntV 0, IntV 0]),
         (''Mestrado - Matriculado'', [IntV 1, IntV 2]),
         (''Mestrado Profissional - Matriculado'', [NaNV, NaNV]),
         (''Sigla IES'', [NoneV, StrV ''UFRGS''])]\<rparr>"

definition ler_exemplo :: "string \<Rightarrow> int option" where
  "ler_exemplo s = (if s = ''2019'' then Some 2019 else None)"

definition exemplo_carregado :: dataframe where
  "exemplo_carregado =
     \<lparr>n_linhas = 2,
      colunas =
        [(''Ano'', [IntV 2019, IntV 2020]),
         (''Estado'', [StrV ''RS'', NoneV]),
         (''Nome COREDE'', [NoneV, StrV ''Sul'']),
         (''Doutorado - Matriculado'', [IntV (- 5), IntV 0]),
         (''Doutorado Profissional - Matriculado'', [IntV 0, IntV 0]),
         (''Mestrado - Matriculado'', [IntV 1, IntV 2]),
         (''Mestrado Profissional - Matriculado'', [IntV 0, IntV 0]),
         (''Sigla IES'', [NoneV, StrV ''UFRGS'']),
         (''COREDE'', [StrV ''None'', StrV ''Sul'']),
         (''IES'', [StrV Nao_informado, StrV ''UFRGS'']),
         (nome_Status_Juridico, [StrV Nao_informado, StrV Nao_informado])]\<rparr>"

section \<open>Properties of the filter step\<close>

lemma aplicar_isin_filter:
  "aplicar_isin sel col df = filter (\<lambda>r. sel = [] \<or> col r \<in> set sel) df"
  by (simp add: aplicar_isin_def)

lemma filtered_df_filter:
  "filtered_df f df =
     filter (\<lambda>r. ano_no_intervalo (ano_range f) r
        \<and> (estados f = [] \<or> Estado r \<in> set (estados f))
        \<and> (municipios f = [] \<or> Municipio r \<in> set (municipios f))
        \<and> (coredes f = [] \<or> COREDE r \<in> set (coredes f))
        \<and> (ies_list f = [] \<or> IES r \<in> set (ies_list f))
        \<and> (status_juridico f = [] \<or> Status_Juridico r \<in> set (status_juridico f))) df"
  by (auto simp add: filtered_df_def aplicar_isin_filter intro: filter_cong)



section \<open>Properties of grouping\<close>










section \<open>Monotonicity under tightening, and the empty result\<close>







lemma grouped_df_Nil: "grouped_df d m [] = []"
  by (simp add: grouped_df_def groupby_sum_def)

text \<open>
  C8 (amended). When the filters leave no row, the time series is empty, the growth rate
  is not computed (the guard of line 176 skips the call and nothing is written) and the
  ranking block is skipped (line 182); the run ends without an exception. The function
  \<open>calcular_cagr\<close> itself returns 0 on an empty series.
\<close>

theorem executar_vazio:
  "filtered_df f df = [] \<Longrightarrow>
     executar f d m df = \<lparr>serie_temporal = [], cagr = None, ranking = None\<rparr>
     \<and> calcular_cagr [] [] = Inr (Fin 0)"
  by (simp add: executar_def grouped_df_Nil cagr_exibido_def ranking_ies_def calcular_cagr_def)

theorem executar_vazio_witness:
  "filtered_df (sem_filtros\<lparr>ano_range := (2030, 2031)\<rparr>) exemplo_df = []
   \<and> executar (sem_filtros\<lparr>ano_range := (2030, 2031)\<rparr>) Dim_Programa Met_Mestrado exemplo_df
       = \<lparr>serie_temporal = [], cagr = None, ranking = None\<rparr>"
proof -
  have e: "filtered_df (sem_filtros\<lparr>ano_range := (2030, 2031)\<rparr>) exemplo_df = []"
    by (simp add: filtered_df_filter sem_filtros_def exemplo_df_def reg_def ano_no_intervalo_def)
  show ?thesis using e executar_vazio [OF e, of Dim_Programa Met_Mestrado] by simp
qed

text \<open>
  C8 as stated fails: for an empty filtered table the script reports no growth rate at
  all, rather than the value 0.
\<close>

theorem executar_vazio_counterexample:
  "cagr (executar (sem_filtros\<lparr>ano_range := (2030, 2031)\<rparr>) Dim_Programa Met_Mestrado exemplo_df)
     \<noteq> Some (Inr (Fin 0))"
  by (simp add: executar_def grouped_df_Nil cagr_exibido_def filtered_df_filter sem_filtros_def
      exemplo_df_def reg_def ano_no_intervalo_def)

section \<open>Properties of the growth rate\<close>











section \<open>Properties of the ranking\<close>







lemma length_sort_values_desc: "length (sort_values_desc t) = length t"
  by (simp add: sort_values_desc_def)











section \<open>Properties of the market shares\<close>


















text \<open>
  The hypothesis on the grand total is needed as well: when every row has the value 0 for
  the metric the table is not empty, the grand total is 0, the division \<open>0 / 0\<close> gives NaN
  for every institution, and no share is a number.
\<close>

lemma market_share_total_zero:
  "ies_stats Met_Doutorado cenario_ies \<noteq> []
   \<and> map market_share (ies_stats Met_Doutorado cenario_ies) = [NaN, NaN, NaN]
   \<and> \<not> \<bar>soma_shares (ies_stats Met_Doutorado cenario_ies) - 100\<bar> \<le> 1 / 10"
  by (simp add: ies_stats_def sort_values_desc_def com_market_share_def ies_agrupado_def
      groupby_sum_def total_geral_def cenario_ies_def reg_def calcular_share_def dividir_def
      soma_shares_def)









section \<open>Properties of loading\<close>

subsection \<open>Reading and writing columns\<close>

lemma obter_atribuir:
  "obter (atribuir c s df) c' = (if c' = c then Inr s else obter df c')"
  by (simp add: obter_def atribuir_def update_conv')

lemma nomes_atribuir:
  "nomes (atribuir c s df) = (if c \<in> set (nomes df) then nomes df else nomes df @ [c])"
  by (simp add: nomes_def atribuir_def update_keys)

lemma n_linhas_atribuir: "n_linhas (atribuir c s df) = n_linhas df"
  by (simp add: atribuir_def)

lemma obter_nomes: "obter df c = Inr s \<Longrightarrow> c \<in> set (nomes df)"
  by (auto simp add: obter_def nomes_def split: option.splits dest: map_of_SomeD intro: rev_image_eqI)

lemma nomes_obter: "c \<in> set (nomes df) \<Longrightarrow> \<exists>s. obter df c = Inr s"
proof -
  assume "c \<in> set (nomes df)"
  then have "map_of (colunas df) c \<noteq> None"
    by (simp add: nomes_def map_of_eq_None_iff)
  then show ?thesis by (auto simp add: obter_def)
qed

lemma obter_falta: "obter df c = Inl e \<Longrightarrow> c \<notin> set (nomes df)"
  using nomes_obter [of c df] by auto

lemma atribuir_mesmo: "obter df c = Inr s \<Longrightarrow> atribuir c s df = df"
  by (auto simp add: obter_def atribuir_def update_triv split: option.splits)

lemma coluna_com_atribuir:
  "coluna_com P (atribuir c s df) c' = (if c' = c then list_all P s else coluna_com P df c')"
  by (simp add: coluna_com_def obter_atribuir)

lemma coluna_com_obter: "coluna_com P df c \<Longrightarrow> \<exists>s. obter df c = Inr s \<and> list_all P s"
  by (auto simp add: coluna_com_def split: sum.splits)

lemma entao_Inr: "entao r f = Inr y \<longleftrightarrow> (\<exists>x. r = Inr x \<and> f x = Inr y)"
  by (cases r) (simp_all add: entao_def)

subsection \<open>Names\<close>

lemma nomes_distintos:
  "distinct ([nome_Ano, nome_COREDE, nome_IES, nome_Status_Juridico] @ colunas_matriculados)"
  by (simp add: nome_Ano_def nome_COREDE_def nome_IES_def nome_Status_Juridico_def
      nome_Juridico_def colunas_matriculados_def)

lemma mapa_colunas_fixo:
  "c \<in> set ([nome_Ano, nome_COREDE, nome_IES, nome_Status_Juridico] @ colunas_matriculados)
     \<Longrightarrow> mapa_colunas k = c \<longleftrightarrow> k = c"
  by (auto simp add: mapa_colunas_def nome_Ano_def nome_COREDE_def nome_IES_def
      nome_Status_Juridico_def nome_Juridico_def colunas_matriculados_def Area_def Avaliacao_def)

lemma mapa_colunas_idem: "mapa_colunas (mapa_colunas k) = mapa_colunas k"
  by (simp add: mapa_colunas_def Area_def Avaliacao_def)

subsection \<open>What each step does\<close>

lemma passo_ano_resultado:
  "passo_ano ler_numero df = Inr d \<Longrightarrow>
     \<exists>s0. obter df nome_Ano = Inr s0 \<and> d = atribuir nome_Ano (map (to_numeric ler_numero) s0) df"
  by (auto simp add: passo_ano_def split: sum.splits)

lemma nomes_passo_renomear: "nomes (passo_renomear df) = map mapa_colunas (nomes df)"
  by (simp add: nomes_def passo_renomear_def comp_def case_prod_beta)


lemma map_of_renomear:
  assumes "\<forall>k. f k = c \<longleftrightarrow> k = c"
  shows "map_of (map (\<lambda>(k, s). (f k, s)) al) c = map_of al c"
proof (induction al)
  case Nil
  show ?case by simp
next
  case (Cons p al)
  obtain k s where p: "p = (k, s)" by (cases p)
  show ?case
  proof (cases "k = c")
    case True
    then have "f k = c" using assms by blast
    then show ?thesis using True p by simp
  next
    case False
    then have "f k \<noteq> c" using assms by blast
    then show ?thesis using False p Cons by simp
  qed
qed

lemma obter_passo_renomear:
  "c \<in> set ([nome_Ano, nome_COREDE, nome_IES, nome_Status_Juridico] @ colunas_matriculados)
     \<Longrightarrow> obter (passo_renomear df) c = obter df c"
proof -
  assume "c \<in> set ([nome_Ano, nome_COREDE, nome_IES, nome_Status_Juridico] @ colunas_matriculados)"
  then have "\<forall>k. mapa_colunas k = c \<longleftrightarrow> k = c" using mapa_colunas_fixo by blast
  then have "map_of (map (\<lambda>(k, s). (mapa_colunas k, s)) (colunas df)) c = map_of (colunas df) c"
    by (rule map_of_renomear)
  then show ?thesis by (simp add: obter_def passo_renomear_def)
qed

lemma passo_renomear_fixo:
  "list_all (\<lambda>c. mapa_colunas c = c) (nomes df) \<Longrightarrow> passo_renomear df = df"
proof -
  assume "list_all (\<lambda>c. mapa_colunas c = c) (nomes df)"
  then have "\<forall>p \<in> set (colunas df). mapa_colunas (fst p) = fst p"
    by (simp add: nomes_def list_all_iff)
  then have "map (\<lambda>(c, s). (mapa_colunas c, s)) (colunas df) = colunas df"
    by (intro map_idI) (auto simp add: case_prod_beta)
  then show ?thesis by (simp add: passo_renomear_def)
qed

lemma texto_astype_str: "texto (astype_str c)"
  by (cases c) simp_all

lemma astype_str_texto: "texto c \<Longrightarrow> astype_str (fillna v c) = c"
  by (cases c) (simp_all add: fillna_def isna_def)

lemma passo_corede_resultado:
  assumes "passo_corede df = Inr d"
  shows "\<exists>s. d = atribuir nome_COREDE s df \<and> list_all texto s"
proof (cases "nome_COREDE \<in> set (nomes df)")
  case True
  then obtain s0 where "obter df nome_COREDE = Inr s0"
    and "d = atribuir nome_COREDE (map (\<lambda>c. astype_str (fillna (StrV ''NA'') c)) s0) df"
    using assms by (auto simp add: passo_corede_def split: sum.splits)
  moreover have "list_all texto (map (\<lambda>c. astype_str (fillna (StrV ''NA'') c)) s0)"
    by (simp add: list_all_iff texto_astype_str)
  ultimately show ?thesis by blast
next
  case False
  show ?thesis
  proof (cases "filter (contido_em nome_COREDE) (nomes df)")
    case Nil
    then have "d = atribuir nome_COREDE (replicate (n_linhas df) (StrV ''NA'')) df"
      using assms False by (simp add: passo_corede_def atribuir_valor_def)
    moreover have "list_all texto (replicate (n_linhas df) (StrV ''NA''))"
      by (simp add: list_all_iff)
    ultimately show ?thesis by blast
  next
    case (Cons c0 resto)
    then obtain s0 where "obter df c0 = Inr s0"
      and "d = atribuir nome_COREDE (map astype_str s0) df"
      using assms False by (auto simp add: passo_corede_def split: sum.splits)
    moreover have "list_all texto (map astype_str s0)"
      by (simp add: list_all_iff texto_astype_str)
    ultimately show ?thesis by blast
  qed
qed

lemma astype_int_inteira: "astype_int ler_inteiro x = Inr y \<Longrightarrow> inteira y"
  by (cases x) (auto split: option.splits)


lemma astype_int_serie_inteira:
  "astype_int_serie ler_inteiro xs = Inr ys \<Longrightarrow> list_all inteira ys"
  by (induction xs arbitrary: ys) (auto split: sum.splits dest: astype_int_inteira)

lemma astype_int_serie_fixo:
  "list_all inteira s \<Longrightarrow> astype_int_serie ler_inteiro (map (fillna (IntV 0)) s) = Inr s"
proof (induction s)
  case Nil
  then show ?case by simp
next
  case (Cons c s)
  then obtain n where "c = IntV n" by (cases c) simp_all
  then show ?case using Cons by (simp add: fillna_def isna_def)
qed

lemma passo_matriculados_resultado:
  "passo_matriculados ler_inteiro cs df = Inr d \<Longrightarrow> distinct cs \<Longrightarrow>
     n_linhas d = n_linhas df \<and> nomes d = nomes df
     \<and> (\<forall>c. c \<notin> set cs \<longrightarrow> obter d c = obter df c)
     \<and> (\<forall>c \<in> set cs. \<exists>s0 s. obter df c = Inr s0
            \<and> astype_int_serie ler_inteiro (map (fillna (IntV 0)) s0) = Inr s
            \<and> obter d c = Inr s)"
proof (induction cs arbitrary: df)
  case Nil
  then show ?case by simp
next
  case (Cons c cs)
  from Cons.prems(1) obtain s0 s where s0: "obter df c = Inr s0"
    and s: "astype_int_serie ler_inteiro (map (fillna (IntV 0)) s0) = Inr s"
    and r: "passo_matriculados ler_inteiro cs (atribuir c s df) = Inr d"
    by (auto split: sum.splits)
  let ?df' = "atribuir c s df"
  have d: "distinct cs" and nc: "c \<notin> set cs" using Cons.prems(2) by simp_all
  note ih = Cons.IH [OF r d]
  have n: "nomes ?df' = nomes df" using obter_nomes [OF s0] by (simp add: nomes_atribuir)
  have 1: "n_linhas d = n_linhas df" using ih by (simp add: n_linhas_atribuir)
  have 2: "nomes d = nomes df" using ih n by simp
  have 3: "\<forall>c'. c' \<notin> set (c # cs) \<longrightarrow> obter d c' = obter df c'"
    using ih by (simp add: obter_atribuir)
  have 4: "\<forall>c' \<in> set (c # cs). \<exists>s0 s. obter df c' = Inr s0
            \<and> astype_int_serie ler_inteiro (map (fillna (IntV 0)) s0) = Inr s
            \<and> obter d c' = Inr s"
  proof
    fix c' assume "c' \<in> set (c # cs)"
    then consider "c' = c" | "c' \<in> set cs" "c' \<noteq> c" using nc by auto
    then show "\<exists>s0 s. obter df c' = Inr s0
            \<and> astype_int_serie ler_inteiro (map (fillna (IntV 0)) s0) = Inr s
            \<and> obter d c' = Inr s"
    proof cases
      case 1
      have "obter d c = obter ?df' c" using ih nc by blast
      then have "obter d c = Inr s" by (simp add: obter_atribuir)
      then show ?thesis using 1 s0 s by blast
    next
      case 2
      then obtain t0 t where "obter ?df' c' = Inr t0"
        and "astype_int_serie ler_inteiro (map (fillna (IntV 0)) t0) = Inr t"
        and "obter d c' = Inr t"
        using ih by blast
      then show ?thesis using 2 by (auto simp add: obter_atribuir)
    qed
  qed
  show ?case using 1 2 3 4 by blast
qed

lemma garantir_coluna_resultado:
  assumes "garantir_coluna nome palavras df = Inr d"
  shows "(nome \<in> set (nomes df) \<and> d = df)
         \<or> (nome \<notin> set (nomes df) \<and> (\<exists>s. d = atribuir nome s df))"
proof (cases "nome \<in> set (nomes df)")
  case True
  then show ?thesis using assms by (simp add: garantir_coluna_def)
next
  case False
  show ?thesis
  proof (cases "filter (\<lambda>c. \<exists>p \<in> set palavras. contido_em p c) (nomes df)")
    case Nil
    then have "d = atribuir nome (replicate (n_linhas df) (StrV Nao_informado)) df"
      using assms False by (simp add: garantir_coluna_def atribuir_valor_def)
    then show ?thesis using False by blast
  next
    case (Cons c0 resto)
    then obtain s0 where "d = atribuir nome s0 df"
      using assms False by (auto simp add: garantir_coluna_def split: sum.splits)
    then show ?thesis using False by blast
  qed
qed

lemma preencher_nulos_resultado:
  "preencher_nulos nome df = Inr d \<Longrightarrow>
     \<exists>s0. obter df nome = Inr s0 \<and> d = atribuir nome (map (fillna (StrV Nao_informado)) s0) df"
  by (auto simp add: preencher_nulos_def split: sum.splits)

lemma nao_nulo_fillna: "\<not> isna (fillna (StrV v) c)"
  by (simp add: fillna_def isna_def)

lemma numerica_to_numeric: "numerica (to_numeric ler_numero c)"
  by (cases c) (simp_all split: option.splits)

lemma to_numeric_fixo: "numerica c \<Longrightarrow> to_numeric ler_numero c = c"
  by (cases c) simp_all

lemma set_nomes_atribuir: "set (nomes (atribuir c s df)) = insert c (set (nomes df))"
  by (auto simp add: nomes_atribuir)

lemma nomes_diferentes:
  shows "nome_Ano \<noteq> nome_COREDE" and "nome_Ano \<noteq> nome_IES"
    and "nome_Ano \<noteq> nome_Status_Juridico" and "nome_Ano \<notin> set colunas_matriculados"
    and "nome_COREDE \<noteq> nome_IES" and "nome_COREDE \<noteq> nome_Status_Juridico"
    and "nome_COREDE \<notin> set colunas_matriculados" and "nome_IES \<noteq> nome_Status_Juridico"
    and "nome_IES \<notin> set colunas_matriculados"
    and "nome_Status_Juridico \<notin> set colunas_matriculados"
    and "distinct colunas_matriculados"
  by (simp_all add: nome_Ano_def nome_COREDE_def nome_IES_def nome_Status_Juridico_def
      nome_Juridico_def colunas_matriculados_def)

lemma mapa_colunas_nomes_fixos:
  shows "mapa_colunas nome_COREDE = nome_COREDE" and "mapa_colunas nome_IES = nome_IES"
    and "mapa_colunas nome_Status_Juridico = nome_Status_Juridico"
    and "mapa_colunas nome_Ano = nome_Ano"
  using mapa_colunas_fixo [of nome_COREDE nome_COREDE] mapa_colunas_fixo [of nome_IES nome_IES]
    mapa_colunas_fixo [of nome_Status_Juridico nome_Status_Juridico]
    mapa_colunas_fixo [of nome_Ano nome_Ano]
  by simp_all

lemma passo_corede_outras:
  "passo_corede df = Inr d \<Longrightarrow> c \<noteq> nome_COREDE \<Longrightarrow> obter d c = obter df c"
  by (drule passo_corede_resultado) (auto simp add: obter_atribuir)

lemma passo_corede_nomes:
  "passo_corede df = Inr d \<Longrightarrow> set (nomes d) = insert nome_COREDE (set (nomes df))"
  by (drule passo_corede_resultado) (auto simp add: set_nomes_atribuir)

lemma passo_corede_coluna:
  "passo_corede df = Inr d \<Longrightarrow> coluna_com texto d nome_COREDE"
  by (drule passo_corede_resultado) (auto simp add: coluna_com_atribuir)

lemma garantir_coluna_outras:
  "garantir_coluna nome palavras df = Inr d \<Longrightarrow> c \<noteq> nome \<Longrightarrow> obter d c = obter df c"
  by (drule garantir_coluna_resultado) (auto simp add: obter_atribuir)

lemma garantir_coluna_nomes:
  "garantir_coluna nome palavras df = Inr d \<Longrightarrow> set (nomes d) = insert nome (set (nomes df))"
  by (drule garantir_coluna_resultado) (auto simp add: set_nomes_atribuir)

lemma preencher_nulos_outras:
  "preencher_nulos nome df = Inr d \<Longrightarrow> c \<noteq> nome \<Longrightarrow> obter d c = obter df c"
  by (drule preencher_nulos_resultado) (auto simp add: obter_atribuir)

lemma preencher_nulos_nomes:
  "preencher_nulos nome df = Inr d \<Longrightarrow> set (nomes d) = set (nomes df)"
  by (drule preencher_nulos_resultado) (auto simp add: set_nomes_atribuir dest: obter_nomes)

lemma preencher_nulos_coluna:
  "preencher_nulos nome df = Inr d \<Longrightarrow> coluna_com (\<lambda>c. \<not> isna c) d nome"
  by (drule preencher_nulos_resultado)
     (auto simp add: coluna_com_atribuir list_all_iff nao_nulo_fillna)

lemma coluna_com_cong: "obter d c = obter df c \<Longrightarrow> coluna_com P d c = coluna_com P df c"
  by (simp add: coluna_com_def)

lemma carregar_dados_passos:
  assumes "carregar_dados ler_numero ler_inteiro df = Inr d"
  obtains df1 df2 df3 df4 df5 df6 where
    "passo_ano ler_numero df = Inr df1"
    "passo_corede (passo_renomear df1) = Inr df2"
    "passo_matriculados ler_inteiro colunas_matriculados df2 = Inr df3"
    "garantir_coluna nome_IES [nome_IES, nome_Instituicao] df3 = Inr df4"
    "garantir_coluna nome_Status_Juridico [nome_Status, nome_Juridico, nome_Categoria] df4 = Inr df5"
    "preencher_nulos nome_IES df5 = Inr df6"
    "preencher_nulos nome_Status_Juridico df6 = Inr d"
  using assms unfolding carregar_dados_def entao_Inr by blast

lemma carregar_dados_canonico:
  assumes "carregar_dados ler_numero ler_inteiro df = Inr d"
  shows "canonico d"
proof -
  from assms obtain df1 df2 df3 df4 df5 df6 where
    p1: "passo_ano ler_numero df = Inr df1" and
    p2: "passo_corede (passo_renomear df1) = Inr df2" and
    p3: "passo_matriculados ler_inteiro colunas_matriculados df2 = Inr df3" and
    p4: "garantir_coluna nome_IES [nome_IES, nome_Instituicao] df3 = Inr df4" and
    p5: "garantir_coluna nome_Status_Juridico [nome_Status, nome_Juridico, nome_Categoria] df4 = Inr df5" and
    p6: "preencher_nulos nome_IES df5 = Inr df6" and
    p7: "preencher_nulos nome_Status_Juridico df6 = Inr d"
    by (rule carregar_dados_passos)
  note m3 = passo_matriculados_resultado [OF p3 nomes_diferentes(11)]
  \<comment> \<open>names\<close>
  have n2: "set (nomes df2) = insert nome_COREDE (mapa_colunas ` set (nomes df1))"
    using passo_corede_nomes [OF p2] by (simp add: nomes_passo_renomear)
  have nd: "set (nomes d) = insert nome_Status_Juridico (insert nome_IES (set (nomes df2)))"
    using preencher_nulos_nomes [OF p7] preencher_nulos_nomes [OF p6]
      garantir_coluna_nomes [OF p5] garantir_coluna_nomes [OF p4] m3
    by simp
  have a: "list_all (\<lambda>c. mapa_colunas c = c) (nomes d)"
    unfolding list_all_iff nd n2
    by (auto simp add: mapa_colunas_nomes_fixos mapa_colunas_idem)
  \<comment> \<open>the year\<close>
  obtain s0 where df1: "df1 = atribuir nome_Ano (map (to_numeric ler_numero) s0) df"
    using passo_ano_resultado [OF p1] by blast
  have "coluna_com numerica df1 nome_Ano"
    by (simp add: df1 coluna_com_atribuir list_all_iff numerica_to_numeric)
  then have "coluna_com numerica (passo_renomear df1) nome_Ano"
    by (simp add: coluna_com_def obter_passo_renomear)
  then have "coluna_com numerica df2 nome_Ano"
    using passo_corede_outras [OF p2 nomes_diferentes(1)] by (simp add: coluna_com_def)
  then have "coluna_com numerica df3 nome_Ano"
    using m3 nomes_diferentes(4) by (simp add: coluna_com_def)
  then have "coluna_com numerica df4 nome_Ano"
    using garantir_coluna_outras [OF p4 nomes_diferentes(2)] by (simp add: coluna_com_def)
  then have "coluna_com numerica df5 nome_Ano"
    using garantir_coluna_outras [OF p5 nomes_diferentes(3)] by (simp add: coluna_com_def)
  then have "coluna_com numerica df6 nome_Ano"
    using preencher_nulos_outras [OF p6 nomes_diferentes(2)] by (simp add: coluna_com_def)
  then have b: "coluna_com numerica d nome_Ano"
    using preencher_nulos_outras [OF p7 nomes_diferentes(3)] by (simp add: coluna_com_def)
  \<comment> \<open>COREDE\<close>
  have "coluna_com texto df2 nome_COREDE" using p2 by (rule passo_corede_coluna)
  then have "coluna_com texto df3 nome_COREDE"
    using m3 nomes_diferentes(7) by (simp add: coluna_com_def)
  then have "coluna_com texto df4 nome_COREDE"
    using garantir_coluna_outras [OF p4 nomes_diferentes(5)] by (simp add: coluna_com_def)
  then have "coluna_com texto df5 nome_COREDE"
    using garantir_coluna_outras [OF p5 nomes_diferentes(6)] by (simp add: coluna_com_def)
  then have "coluna_com texto df6 nome_COREDE"
    using preencher_nulos_outras [OF p6 nomes_diferentes(5)] by (simp add: coluna_com_def)
  then have c: "coluna_com texto d nome_COREDE"
    using preencher_nulos_outras [OF p7 nomes_diferentes(6)] by (simp add: coluna_com_def)
  \<comment> \<open>enrolment counts\<close>
  have e: "list_all (coluna_com inteira d) colunas_matriculados"
    unfolding list_all_iff
  proof
    fix k assume k: "k \<in> set colunas_matriculados"
    then obtain s where "obter df3 k = Inr s" and "list_all inteira s"
      using m3 astype_int_serie_inteira by blast
    then have "coluna_com inteira df3 k" by (simp add: coluna_com_def)
    moreover have "k \<noteq> nome_IES" and "k \<noteq> nome_Status_Juridico"
      using k nomes_diferentes(9,10) by auto
    ultimately show "coluna_com inteira d k"
      using garantir_coluna_outras [OF p4, of k] garantir_coluna_outras [OF p5, of k]
        preencher_nulos_outras [OF p6, of k] preencher_nulos_outras [OF p7, of k]
      by (simp add: coluna_com_def)
  qed
  \<comment> \<open>institution and legal status\<close>
  have "coluna_com (\<lambda>c. \<not> isna c) df6 nome_IES" using p6 by (rule preencher_nulos_coluna)
  then have f: "coluna_com (\<lambda>c. \<not> isna c) d nome_IES"
    using preencher_nulos_outras [OF p7 nomes_diferentes(8)] by (simp add: coluna_com_def)
  have g: "coluna_com (\<lambda>c. \<not> isna c) d nome_Status_Juridico"
    using p7 by (rule preencher_nulos_coluna)
  show ?thesis using a b c e f g by (simp add: canonico_def)
qed

lemma passo_ano_fixo:
  assumes "coluna_com numerica d nome_Ano"
  shows "passo_ano ler_numero d = Inr d"
proof -
  obtain s where s: "obter d nome_Ano = Inr s" and n: "list_all numerica s"
    using coluna_com_obter [OF assms] by blast
  have "map (to_numeric ler_numero) s = s"
    using n by (intro map_idI) (simp add: list_all_iff to_numeric_fixo)
  then show ?thesis using s by (simp add: passo_ano_def atribuir_mesmo)
qed

lemma passo_corede_fixo:
  assumes "coluna_com texto d nome_COREDE"
  shows "passo_corede d = Inr d"
proof -
  obtain s where s: "obter d nome_COREDE = Inr s" and n: "list_all texto s"
    using coluna_com_obter [OF assms] by blast
  have "map (\<lambda>c. astype_str (fillna (StrV ''NA'') c)) s = s"
    using n by (intro map_idI) (simp add: list_all_iff astype_str_texto)
  then show ?thesis
    using s obter_nomes [OF s] by (simp add: passo_corede_def atribuir_mesmo)
qed

lemma passo_matriculados_fixo:
  "list_all (coluna_com inteira d) cs \<Longrightarrow> passo_matriculados ler_inteiro cs d = Inr d"
proof (induction cs)
  case Nil
  show ?case by simp
next
  case (Cons c cs)
  then have "coluna_com inteira d c" by simp
  then obtain s where s: "obter d c = Inr s" and n: "list_all inteira s"
    using coluna_com_obter by blast
  show ?case
    using Cons s by (simp add: astype_int_serie_fixo [OF n] atribuir_mesmo)
qed

lemma garantir_coluna_fixo:
  assumes "coluna_com P d nome"
  shows "garantir_coluna nome palavras d = Inr d"
proof -
  obtain s where "obter d nome = Inr s" using coluna_com_obter [OF assms] by blast
  then have "nome \<in> set (nomes d)" by (rule obter_nomes)
  then show ?thesis by (simp add: garantir_coluna_def)
qed

lemma preencher_nulos_fixo:
  assumes "coluna_com (\<lambda>c. \<not> isna c) d nome"
  shows "preencher_nulos nome d = Inr d"
proof -
  obtain s where s: "obter d nome = Inr s" and n: "list_all (\<lambda>c. \<not> isna c) s"
    using coluna_com_obter [OF assms] by blast
  have "map (fillna (StrV Nao_informado)) s = s"
    using n by (intro map_idI) (simp add: list_all_iff fillna_def)
  then show ?thesis using s by (simp add: preencher_nulos_def atribuir_mesmo)
qed

lemma canonico_fixo:
  assumes "canonico d"
  shows "carregar_dados ler_numero ler_inteiro d = Inr d"
proof -
  have 1: "passo_ano ler_numero d = Inr d"
    using assms by (simp add: canonico_def passo_ano_fixo)
  have 2: "passo_renomear d = d"
    using assms by (simp add: canonico_def passo_renomear_fixo)
  have 3: "passo_corede d = Inr d"
    using assms by (simp add: canonico_def passo_corede_fixo)
  have 4: "passo_matriculados ler_inteiro colunas_matriculados d = Inr d"
    using assms by (simp add: canonico_def passo_matriculados_fixo)
  have 5: "garantir_coluna nome_IES [nome_IES, nome_Instituicao] d = Inr d"
    using assms unfolding canonico_def by (blast intro: garantir_coluna_fixo)
  have 6: "garantir_coluna nome_Status_Juridico [nome_Status, nome_Juridico, nome_Categoria] d = Inr d"
    using assms unfolding canonico_def by (blast intro: garantir_coluna_fixo)
  have 7: "preencher_nulos nome_IES d = Inr d"
    using assms by (simp add: canonico_def preencher_nulos_fixo)
  have 8: "preencher_nulos nome_Status_Juridico d = Inr d"
    using assms by (simp add: canonico_def preencher_nulos_fixo)
  show ?thesis
    by (simp add: carregar_dados_def entao_def 1 2 3 4 5 6 7 8)
qed

text \<open>
  C9. Loading is idempotent: running the body of \<^verbatim>\<open>carregar_dados\<close> on a table it has
  produced gives that table again; on a raw table for which it raises, the exception is
  all there is. Composition of the two runs passes an exception on.
\<close>

theorem carregar_dados_idempotente:
  "entao (carregar_dados ler_numero ler_inteiro df) (carregar_dados ler_numero ler_inteiro)
     = carregar_dados ler_numero ler_inteiro df"
proof (cases "carregar_dados ler_numero ler_inteiro df")
  case (Inl e)
  then show ?thesis by (simp add: entao_def)
next
  case (Inr d)
  then have "carregar_dados ler_numero ler_inteiro d = Inr d"
    by (intro canonico_fixo carregar_dados_canonico)
  then show ?thesis using Inr by (simp add: entao_def)
qed

lemma carregar_exemplo:
  "carregar_dados ler_exemplo ler_exemplo exemplo_bruto = Inr exemplo_carregado"
  by code_simp

theorem carregar_dados_idempotente_witness:
  "carregar_dados ler_exemplo ler_exemplo exemplo_bruto = Inr exemplo_carregado
   \<and> carregar_dados ler_exemplo ler_exemplo exemplo_carregado = Inr exemplo_carregado"
  using carregar_dados_idempotente [of ler_exemplo ler_exemplo exemplo_bruto]
  by (simp add: carregar_exemplo entao_def)







subsection \<open>The three ways a column is provided\<close>










lemma filter_snoc_fora: "\<not> P c \<Longrightarrow> filter P (xs @ [c]) = filter P xs"
  by simp




lemma contido_em_COREDE: "contido_em nome_COREDE nome_COREDE"
  by (simp add: nome_COREDE_def)

subsection \<open>Lengths of the columns\<close>























end
